theory Spec2Isabelle
  imports Complex_Main "HOL-Library.Log_Nat" "HOL-Library.Word"
begin

section \<open>Collishi: the collision routines of \<^verbatim>\<open>Collisions.h\<close>\<close>

text \<open>
  The header is a flat set of pure \<^verbatim>\<open>constexpr\<close> functions: six numeric helper templates
  and thirteen collision predicates over \<^verbatim>\<open>float\<close> coordinates. It is embedded twice.

  Exact arithmetic. The helper templates are generic in their number type \<^verbatim>\<open>T\<close> (the header
  instantiates them with \<^verbatim>\<open>double\<close> and \<^verbatim>\<open>int\<close>); they are embedded over any ordered
  integral domain, and the predicates over the real numbers, with exact \<^verbatim>\<open>+\<close>, \<^verbatim>\<open>-\<close> and
  \<^verbatim>\<open>*\<close>. This embedding carries the relations that are identities of the arithmetic
  (symmetry, a zero extent, a negated radius, the short cut of line against box) and the
  contract of the fraction tests, which is stated on exact fractions.

  binary32. Properties that depend on rounding, on overflow to infinity or on NaN are
  settled on a second embedding over IEEE 754 single precision values (second half of the
  definitions): \<^verbatim>\<open>collision_point_point\<close>, \<^verbatim>\<open>collision_point_line\<close>,
  \<^verbatim>\<open>collision_point_triangle\<close> and \<^verbatim>\<open>collision_box_box\<close> with the helpers they call carry
  the suffix \<open>_f32\<close> there.

  Failure model. The only operation of the header with a precondition is
  \<^verbatim>\<open>std::minmax\<close> on a \<^verbatim>\<open>std::initializer_list\<close>, which requires a non-empty list. It is
  embedded with an \<open>option\<close> result, \<open>None\<close> standing for the violated precondition, and
  so are \<^verbatim>\<open>overlap\<close> and the four predicates that call it.
\<close>

section \<open>The exact embedding\<close>

subsection \<open>Numeric helpers (exact arithmetic)\<close>

text \<open>\<^verbatim>\<open>constexpr_abs\<close>: \<^verbatim>\<open>return (value < 0.0f ? -value : value);\<close>\<close>

definition constexpr_abs :: "'a::linordered_idom \<Rightarrow> 'a" where
  "constexpr_abs v = (if v < 0 then - v else v)"

text \<open>\<^verbatim>\<open>fraction_less_than_zero\<close>: two early returns, then \<^verbatim>\<open>return false\<close>.\<close>

definition fraction_less_than_zero :: "'a::linordered_idom \<Rightarrow> 'a \<Rightarrow> bool" where
  "fraction_less_than_zero nominator denominator =
     (if nominator = 0 then False
      else if (nominator < 0) \<noteq> (denominator < 0) then True
      else False)"

definition fraction_between_zero_and_one :: "'a::linordered_idom \<Rightarrow> 'a \<Rightarrow> bool" where
  "fraction_between_zero_and_one nominator denominator =
     (if fraction_less_than_zero nominator denominator then False
      else if constexpr_abs nominator > constexpr_abs denominator then False
      else True)"

text \<open>
  \<^verbatim>\<open>std::minmax(a, b)\<close> returns \<^verbatim>\<open>(b, a)\<close> if \<^verbatim>\<open>b < a\<close> and \<^verbatim>\<open>(a, b)\<close> otherwise.
\<close>

definition minmax :: "'a::linorder \<Rightarrow> 'a \<Rightarrow> 'a \<times> 'a" where
  "minmax a b = (if b < a then (b, a) else (a, b))"

definition between :: "'a::linordered_idom \<Rightarrow> 'a \<Rightarrow> 'a \<Rightarrow> bool" where
  "between v border_1 border_2 =
     (let interval = minmax border_1 border_2
      in if v < fst interval then False
         else if v > snd interval then False
         else True)"

text \<open>
  \<^verbatim>\<open>std::minmax(std::initializer_list<T>)\<close> returns the smallest and the largest element
  of the list; the list must not be empty.
\<close>

fun minmax_list :: "'a::linorder list \<Rightarrow> ('a \<times> 'a) option" where
  "minmax_list [] = None"
| "minmax_list (x # xs) = Some (foldl min x xs, foldl max x xs)"

definition overlap :: "'a::linordered_idom list \<Rightarrow> 'a list \<Rightarrow> bool option" where
  "overlap interval_1 interval_2 =
     (case minmax_list interval_1 of
        None \<Rightarrow> None
      | Some interval_1_minmax \<Rightarrow>
          (case minmax_list interval_2 of
             None \<Rightarrow> None
           | Some interval_2_minmax \<Rightarrow>
               Some (if snd interval_2_minmax < fst interval_1_minmax then False
                     else if snd interval_1_minmax < fst interval_2_minmax then False
                     else True)))"

text \<open>\<^verbatim>\<open>sign_square\<close>: \<^verbatim>\<open>return (x < 0.0f ? -x * x : x * x);\<close>\<close>

definition sign_square :: "'a::linordered_idom \<Rightarrow> 'a" where
  "sign_square x = (if x < 0 then (- x) * x else x * x)"

subsection \<open>Point predicates (exact arithmetic)\<close>

definition collision_point_line ::
  "real \<Rightarrow> real \<Rightarrow> real \<Rightarrow> real \<Rightarrow> real \<Rightarrow> real \<Rightarrow> bool" where
  "collision_point_line x1 y1 x2 y2 dx2 dy2 =
     (let dx12 = x1 - x2;
          dy12 = y1 - y2
      in if dx12 * dy2 \<noteq> dy12 * dx2 then False
         else let projection = dx12 * dx2 + dy12 * dy2
              in if \<not> between projection 0 (dx2 * dx2 + dy2 * dy2) then False
                 else True)"

definition collision_point_circle ::
  "real \<Rightarrow> real \<Rightarrow> real \<Rightarrow> real \<Rightarrow> real \<Rightarrow> bool" where
  "collision_point_circle x1 y1 x2 y2 r2 =
     (let dx = x1 - x2;
          dy = y1 - y2
      in if dx * dx + dy * dy > r2 * r2 then False else True)"

definition collision_point_box ::
  "real \<Rightarrow> real \<Rightarrow> real \<Rightarrow> real \<Rightarrow> real \<Rightarrow> real \<Rightarrow> bool" where
  "collision_point_box x1 y1 x2 y2 w2 h2 =
     (if x1 < x2 then False
      else if y1 < y2 then False
      else if x2 + w2 < x1 then False
      else if y2 + h2 < y1 then False
      else True)"

subsection \<open>Line predicates\<close>

text \<open>
  In \<^verbatim>\<open>collision_line_line\<close> the block guarded by \<^verbatim>\<open>cross_term == 0.0f\<close> only returns
  when one of its two point tests succeeds; otherwise control falls through to the
  projection tests.
\<close>

definition collision_line_line ::
  "real \<Rightarrow> real \<Rightarrow> real \<Rightarrow> real \<Rightarrow> real \<Rightarrow> real \<Rightarrow> real \<Rightarrow> real \<Rightarrow> bool" where
  "collision_line_line x1 y1 dx1 dy1 x2 y2 dx2 dy2 =
     (let cross_term = dx2 * dy1 - dy2 * dx1
      in if cross_term = 0 \<and> collision_point_line x1 y1 x2 y2 dx2 dy2 then True
         else if cross_term = 0 \<and> collision_point_line x2 y2 x1 y1 dx1 dy1 then True
         else let y21 = y2 - y1;
                  x21 = x2 - x1;
                  projection_2_on_n1 = y21 * dx1 - x21 * dy1
              in if (projection_2_on_n1 < 0) = (projection_2_on_n1 < cross_term) then False
                 else let projection_1_on_n2 = x21 * dy2 - y21 * dx2
                      in if (projection_1_on_n2 < 0) = (projection_1_on_n2 < - cross_term)
                         then False
                         else True)"

definition collision_line_circle ::
  "real \<Rightarrow> real \<Rightarrow> real \<Rightarrow> real \<Rightarrow> real \<Rightarrow> real \<Rightarrow> real \<Rightarrow> bool option" where
  "collision_line_circle x1 y1 dx1 dy1 x2 y2 r2 =
     (let x21 = x2 - x1;
          y21 = y2 - y1;
          r2_squared = r2 * r2;
          proj_circle_normal = y21 * dx1 - x21 * dy1;
          proj_circle_normal_max = r2_squared * (dx1 * dx1 + dy1 * dy1)
      in if \<not> between (sign_square proj_circle_normal)
                 (- proj_circle_normal_max) proj_circle_normal_max
         then Some False
         else let x2d1 = x21 - dx1;
                  y2d1 = y21 - dy1;
                  distance_1_2 = x21 * x21 + y21 * y21;
                  distance_d_2 = x2d1 * x2d1 + y2d1 * y2d1
              in if distance_1_2 < distance_d_2
                 then (let p1 = sign_square distance_1_2;
                           p2 = sign_square (distance_1_2 - dx1 * x21 - dy1 * y21);
                           proj_r2_squared = r2_squared * (x21 * x21 + y21 * y21)
                       in (case overlap [p1, p2] [- proj_r2_squared, proj_r2_squared] of
                            None \<Rightarrow> None
                          | Some ov \<Rightarrow> if \<not> ov then Some False else Some True))
                 else (let p1 = sign_square distance_d_2;
                           p2 = sign_square (distance_1_2 - dx1 * x21 - dy1 * y21);
                           proj_r2_squared = r2_squared * (x2d1 * x2d1 + y2d1 * y2d1)
                       in (case overlap [p1, p2] [- proj_r2_squared, proj_r2_squared] of
                            None \<Rightarrow> None
                          | Some ov \<Rightarrow> if \<not> ov then Some False else Some True)))"

text \<open>
  Each side test of \<^verbatim>\<open>collision_line_box\<close> is a nested \<^verbatim>\<open>if\<close> whose inner branch
  returns true and whose other paths fall through to the next side; it is embedded as one
  conditional on the conjunction of the two conditions.
\<close>

definition collision_line_box ::
  "real \<Rightarrow> real \<Rightarrow> real \<Rightarrow> real \<Rightarrow> real \<Rightarrow> real \<Rightarrow> real \<Rightarrow> real \<Rightarrow> bool" where
  "collision_line_box x1 y1 dx1 dy1 x2 y2 w2 h2 =
     (if collision_point_box x1 y1 x2 y2 w2 h2 then True
      else if collision_point_box (x1 + dx1) (y1 + dy1) x2 y2 w2 h2 then True
      else let nominator_x_neg = x2 - x1;
               nominator_x_pos = x2 + w2 - x1;
               nominator_y_neg = y2 - y1;
               nominator_y_pos = y2 + h2 - y1;
               nom_x_neg_dy = nominator_x_neg * dy1;
               nom_x_pos_dy = nominator_x_pos * dy1;
               nom_y_neg_dx = nominator_y_neg * dx1;
               nom_y_pos_dx = nominator_y_pos * dx1
           in if (nom_x_neg_dy \<ge> nom_y_neg_dx \<and> nom_x_neg_dy \<le> nom_y_pos_dx)
                   \<and> fraction_between_zero_and_one nominator_x_neg dx1 then True
              else if (nom_x_pos_dy \<ge> nom_y_neg_dx \<and> nom_x_pos_dy \<le> nom_y_pos_dx)
                   \<and> fraction_between_zero_and_one nominator_x_pos dx1 then True
              else if (nom_y_neg_dx \<ge> nom_x_neg_dy \<and> nom_y_neg_dx \<le> nom_x_pos_dy)
                   \<and> fraction_between_zero_and_one nominator_y_neg dy1 then True
              else if (nom_y_pos_dx \<ge> nom_x_neg_dy \<and> nom_y_pos_dx \<le> nom_x_pos_dy)
                   \<and> fraction_between_zero_and_one nominator_y_pos dy1 then True
              else False)"

text \<open>
  \<^verbatim>\<open>collision_line_triangle\<close> casts three comparisons to \<^verbatim>\<open>short\<close> (0 or 1) and
  compares their sum with 3.
\<close>

definition collision_line_triangle ::
  "real \<Rightarrow> real \<Rightarrow> real \<Rightarrow> real \<Rightarrow> real \<Rightarrow> real \<Rightarrow> real \<Rightarrow> real \<Rightarrow> real \<Rightarrow> real
     \<Rightarrow> bool option" where
  "collision_line_triangle x1 y1 dx1 dy1 x2 y2 sxa2 sya2 sxb2 syb2 =
     (let x21 = x2 - x1;
          y21 = y2 - y1;
          xa1 = x21 + sxa2;
          ya1 = y21 + sya2;
          xb1 = x21 + sxb2;
          yb1 = y21 + syb2;
          projection_2_on_n1 = y21 * dx1 - x21 * dy1;
          projection_a_on_n1 = ya1 * dx1 - xa1 * dy1;
          projection_b_on_n1 = yb1 * dx1 - xb1 * dy1;
          p2_n1_negative = (if projection_2_on_n1 < 0 then 1 else 0 :: int);
          pa_n1_negative = (if projection_a_on_n1 < 0 then 1 else 0 :: int);
          pb_n1_negative = (if projection_b_on_n1 < 0 then 1 else 0 :: int)
      in if p2_n1_negative + pa_n1_negative + pb_n1_negative = 3 then Some False
         else let projection_1_on_na = x21 * sya2 - y21 * sxa2;
                  projection_d_on_na = dy1 * sxa2 - dx1 * sya2;
                  projection_b_on_na = syb2 * sxa2 - sxb2 * sya2
              in case overlap [projection_1_on_na, projection_1_on_na + projection_d_on_na]
                              [0, projection_b_on_na] of
                   None \<Rightarrow> None
                 | Some ov_a \<Rightarrow>
                     if \<not> ov_a then Some False
                     else let projection_1_on_nb = x21 * syb2 - y21 * sxb2;
                              projection_d_on_nb = dy1 * sxb2 - dx1 * syb2;
                              projection_a_on_nb = - projection_b_on_na
                          in (case overlap
                                    [projection_1_on_nb, projection_1_on_nb + projection_d_on_nb]
                                    [0, projection_a_on_nb] of
                               None \<Rightarrow> None
                             | Some ov_b \<Rightarrow>
                                 if \<not> ov_b then Some False
                                 else let sxc2 = sxb2 - sxa2;
                                          syc2 = syb2 - sya2;
                                          projection_1_on_nc = xa1 * syc2 - ya1 * sxc2;
                                          projection_d_on_nc = dy1 * sxc2 - dx1 * syc2;
                                          projection_2_on_nc = projection_b_on_na
                                      in (case overlap
                                                [projection_1_on_nc,
                                                 projection_1_on_nc + projection_d_on_nc]
                                                [0, projection_2_on_nc] of
                                           None \<Rightarrow> None
                                         | Some ov_c \<Rightarrow>
                                             if \<not> ov_c then Some False else Some True)))"

subsection \<open>Circle predicates\<close>

definition collision_circle_circle ::
  "real \<Rightarrow> real \<Rightarrow> real \<Rightarrow> real \<Rightarrow> real \<Rightarrow> real \<Rightarrow> bool" where
  "collision_circle_circle x1 y1 r1 x2 y2 r2 =
     (let dx = x1 - x2;
          dy = y1 - y2;
          combined_radius = r1 + r2
      in if dx * dx + dy * dy > combined_radius * combined_radius then False else True)"

text \<open>
  The mutable locals \<^verbatim>\<open>min_dist\<close>, \<^verbatim>\<open>vx\<close>, \<^verbatim>\<open>vy\<close> of \<^verbatim>\<open>collision_circle_box\<close> and
  \<^verbatim>\<open>collision_circle_triangle\<close> are threaded as a triple through the three conditional
  updates.
\<close>

definition collision_circle_box ::
  "real \<Rightarrow> real \<Rightarrow> real \<Rightarrow> real \<Rightarrow> real \<Rightarrow> real \<Rightarrow> real \<Rightarrow> bool option" where
  "collision_circle_box x1 y1 r1 x2 y2 w2 h2 =
     (let dxp = x2 + w2 - x1;
          dyp = y2 + h2 - y1;
          dxm = x2 - x1;
          dym = y2 - y1
      in case overlap [dxm, dxp] [- r1, r1] of
           None \<Rightarrow> None
         | Some ov_x \<Rightarrow>
             if \<not> ov_x then Some False
             else (case overlap [dym, dyp] [- r1, r1] of
                    None \<Rightarrow> None
                  | Some ov_y \<Rightarrow>
                      if \<not> ov_y then Some False
                      else let dxp2 = dxp * dxp;
                               dxm2 = dxm * dxm;
                               dyp2 = dyp * dyp;
                               dym2 = dym * dym;
                               dxp2yp2 = dxp2 + dyp2;
                               dyp2xm2 = dyp2 + dxm2;
                               dxm2ym2 = dxm2 + dym2;
                               dym2xp2 = dym2 + dxp2;
                               s0 = (dxp2yp2, dxp, dyp);
                               s1 = (if dyp2xm2 < fst s0 then (dyp2xm2, dxm, dyp) else s0);
                               s2 = (if dxm2ym2 < fst s1 then (dxm2ym2, dxm, dym) else s1);
                               s3 = (if dym2xp2 < fst s2 then (dym2xp2, dxp, dym) else s2);
                               vx = fst (snd s3);
                               vy = snd (snd s3);
                               proj_v_pp = sign_square (dxp * vx + dyp * vy);
                               proj_v_pm = sign_square (dxp * vx + dym * vy);
                               proj_v_mp = sign_square (dxm * vx + dyp * vy);
                               proj_v_mm = sign_square (dxm * vx + dym * vy);
                               proj_r1_squared = r1 * r1 * (vx * vx + vy * vy)
                           in (case overlap [proj_v_pp, proj_v_pm, proj_v_mp, proj_v_mm]
                                           [- proj_r1_squared, proj_r1_squared] of
                                None \<Rightarrow> None
                              | Some ov_v \<Rightarrow> if \<not> ov_v then Some False else Some True)))"

definition collision_circle_triangle ::
  "real \<Rightarrow> real \<Rightarrow> real \<Rightarrow> real \<Rightarrow> real \<Rightarrow> real \<Rightarrow> real \<Rightarrow> real \<Rightarrow> real \<Rightarrow> bool option" where
  "collision_circle_triangle x1 y1 r1 x2 y2 sxa2 sya2 sxb2 syb2 =
     (let dx = x1 - x2;
          dy = y1 - y2;
          r1_squared = r1 * r1;
          cross_term = sxa2 * syb2 - sxb2 * sya2;
          proj_x1_a = dy * sxa2 - dx * sya2;
          proj_r1_a_squared = r1_squared * (sxa2 * sxa2 + sya2 * sya2)
      in case overlap [sign_square (- proj_x1_a), sign_square (cross_term - proj_x1_a)]
                      [- proj_r1_a_squared, proj_r1_a_squared] of
           None \<Rightarrow> None
         | Some ov_a \<Rightarrow>
             if \<not> ov_a then Some False
             else let proj_x1_b = dy * sxb2 - dx * syb2;
                      proj_r1_b_squared = r1_squared * (sxb2 * sxb2 + syb2 * syb2)
                  in (case overlap
                            [sign_square (- proj_x1_b), sign_square (- cross_term - proj_x1_b)]
                            [- proj_r1_b_squared, proj_r1_b_squared] of
                       None \<Rightarrow> None
                     | Some ov_b \<Rightarrow>
                         if \<not> ov_b then Some False
                         else let sxc2 = sxb2 - sxa2;
                                  syc2 = syb2 - sya2;
                                  proj_x1_c = dy * (sxb2 - sxa2) - dx * (syb2 - sya2);
                                  proj_r1_c_squared = r1_squared * (sxc2 * sxc2 + syc2 * syc2)
                              in (case overlap
                                        [sign_square (- proj_x1_c), sign_square proj_x1_c]
                                        [- proj_r1_c_squared, proj_r1_c_squared] of
                                   None \<Rightarrow> None
                                 | Some ov_c \<Rightarrow>
                                     if \<not> ov_c then Some False
                                     else let dxa = dx - sxa2;
                                              dya = dy - sya2;
                                              dxb = dx - sxb2;
                                              dyb = dy - syb2;
                                              da_norm = dxa * dxa + dya * dya;
                                              db_norm = dxb * dxb + dyb * dyb;
                                              s0 = (dx * dx + dy * dy, - dx, - dy);
                                              s1 = (if da_norm < fst s0
                                                    then (da_norm, - dxa, - dya) else s0);
                                              s2 = (if db_norm < fst s1
                                                    then (db_norm, - dxb, - dyb) else s1);
                                              min_dist = fst s2;
                                              vx = fst (snd s2);
                                              vy = snd (snd s2);
                                              proj_2_0_v = sign_square (- dx * vx - dy * vy);
                                              proj_2_a_v = sign_square (- dxa * vx - dya * vy);
                                              proj_2_b_v = sign_square (- dxb * vx - dyb * vy);
                                              proj_r_v_squared = r1_squared * min_dist
                                          in (case overlap [proj_2_0_v, proj_2_a_v, proj_2_b_v]
                                                          [- proj_r_v_squared, proj_r_v_squared] of
                                               None \<Rightarrow> None
                                             | Some ov_v \<Rightarrow>
                                                 if \<not> ov_v then Some False else Some True))))"

subsection \<open>Box against box\<close>

definition collision_box_box ::
  "real \<Rightarrow> real \<Rightarrow> real \<Rightarrow> real \<Rightarrow> real \<Rightarrow> real \<Rightarrow> real \<Rightarrow> real \<Rightarrow> bool" where
  "collision_box_box x1 y1 w1 h1 x2 y2 w2 h2 =
     (if x1 + w1 < x2 then False
      else if y1 + h1 < y2 then False
      else if x2 + w2 < x1 then False
      else if y2 + h2 < y1 then False
      else True)"

section \<open>The binary32 embedding\<close>

subsection \<open>Single precision values\<close>

text \<open>
  A \<^verbatim>\<open>float\<close> is its IEEE 754 binary32 bit pattern: the sign bit and the remaining 31
  bits (8 bits of biased exponent above 23 bits of mantissa), read as one number, the
  magnitude index. Index \<open>255 * 2^23\<close> is infinity, every larger index is a NaN.
\<close>

datatype float = Float (sign_bit: bool) (magnitude: "31 word")

definition hidden_bit :: int where
  "hidden_bit = 2 ^ 23"

definition inf_index :: int where
  "inf_index = 255 * hidden_bit"

text \<open>
  The magnitude denoted by the index \<open>k\<close> of a finite value, in units of \<open>2^-149\<close>: with
  exponent field \<open>e\<close> and mantissa field \<open>m\<close> it is \<open>m\<close> for a subnormal (\<open>e = 0\<close>) and
  \<open>(2^23 + m) * 2^(e - 1)\<close> otherwise.
\<close>

definition ival :: "int \<Rightarrow> int" where
  "ival k =
     (let e = k div hidden_bit; m = k mod hidden_bit
      in if e = 0 then m else (hidden_bit + m) * 2 ^ nat (e - 1))"

text \<open>
  The value a pattern denotes. Both zeros denote \<open>0\<close> and all NaN patterns denote \<open>NaN\<close>:
  the header has no operation that tells them apart (no division, no bit cast), and every
  comparison below goes through the denoted value.
\<close>

datatype fval = NaN | PInf | NInf | Fin rat

fun valof :: "float \<Rightarrow> fval" where
  "valof (Float s m) =
     (let k = uint m
      in if inf_index < k then NaN
         else if k = inf_index then (if s then NInf else PInf)
         else Fin ((if s then - 1 else 1) * of_int (ival k) / 2 ^ 149))"

subsection \<open>Rounding\<close>

text \<open>
  \<open>floor_index t\<close> is the index of the largest magnitude not above \<open>t \<ge> 0\<close> (in units of
  \<open>2^-149\<close>), capped at the index of infinity: below \<open>2^23\<close> the magnitudes are the
  integers; above, they are the multiples of \<open>2^s\<close> in the binade of \<open>t\<close>.
\<close>

definition floor_index :: "rat \<Rightarrow> int" where
  "floor_index t =
     (let n = \<lfloor>t\<rfloor>
      in if n < hidden_bit then n
         else if 2 ^ 254 * hidden_bit \<le> n then inf_index
         else let s = bitlen n - 24
              in (s + 1) * hidden_bit + (n div 2 ^ nat s - hidden_bit))"

text \<open>
  Round to nearest, ties to the even mantissa. The index above the largest finite value
  is the index of infinity and counts as \<open>2^128\<close>, which is the overflow rule of IEEE 754.
\<close>

definition round_index :: "rat \<Rightarrow> int" where
  "round_index t =
     (let k = floor_index t
      in if k = inf_index then k
         else let lo = of_int (ival k); hi = of_int (ival (k + 1))
              in if t - lo < hi - t then k
                 else if hi - t < t - lo then k + 1
                 else if even k then k else k + 1)"

text \<open>The \<^verbatim>\<open>float\<close> nearest to a rational number; also the value of a literal.\<close>

definition to_float :: "rat \<Rightarrow> float" where
  "to_float q = Float (q < 0) (word_of_int (round_index (\<bar>q\<bar> * 2 ^ 149)))"

definition quiet_nan :: float where
  "quiet_nan = Float False (word_of_int (inf_index + 2 ^ 22))"

definition pos_inf :: float where
  "pos_inf = Float False (word_of_int inf_index)"

definition neg_inf :: float where
  "neg_inf = Float True (word_of_int inf_index)"

fun of_fval :: "fval \<Rightarrow> float" where
  "of_fval NaN = quiet_nan"
| "of_fval PInf = pos_inf"
| "of_fval NInf = neg_inf"
| "of_fval (Fin q) = to_float q"

subsection \<open>The operators of C++ on \<^verbatim>\<open>float\<close>\<close>

text \<open>
  Each arithmetic operator computes the exact result on the denoted values, with the
  special cases of IEEE 754 (NaN is contagious, \<open>\<infinity> - \<infinity>\<close> and \<open>0 * \<infinity>\<close> are NaN), and
  rounds it to binary32: every operation rounds once, as in the evaluation of a constant
  expression (no wider intermediate format, no fused multiply-add). Negation flips the
  sign bit.
\<close>

fun vneg :: "fval \<Rightarrow> fval" where
  "vneg NaN = NaN"
| "vneg PInf = NInf"
| "vneg NInf = PInf"
| "vneg (Fin x) = Fin (- x)"

fun vadd :: "fval \<Rightarrow> fval \<Rightarrow> fval" where
  "vadd (Fin x) (Fin y) = Fin (x + y)"
| "vadd NaN v = NaN"
| "vadd u NaN = NaN"
| "vadd PInf NInf = NaN"
| "vadd NInf PInf = NaN"
| "vadd PInf v = PInf"
| "vadd u PInf = PInf"
| "vadd NInf v = NInf"
| "vadd u NInf = NInf"

fun vmul :: "fval \<Rightarrow> fval \<Rightarrow> fval" where
  "vmul (Fin x) (Fin y) = Fin (x * y)"
| "vmul NaN v = NaN"
| "vmul u NaN = NaN"
| "vmul (Fin x) PInf = (if x = 0 then NaN else if 0 < x then PInf else NInf)"
| "vmul (Fin x) NInf = (if x = 0 then NaN else if 0 < x then NInf else PInf)"
| "vmul PInf (Fin y) = (if y = 0 then NaN else if 0 < y then PInf else NInf)"
| "vmul NInf (Fin y) = (if y = 0 then NaN else if 0 < y then NInf else PInf)"
| "vmul PInf PInf = PInf"
| "vmul PInf NInf = NInf"
| "vmul NInf PInf = NInf"
| "vmul NInf NInf = PInf"

text \<open>Comparisons: every comparison with a NaN is false, also \<^verbatim>\<open>NaN == NaN\<close>.\<close>

fun vlt :: "fval \<Rightarrow> fval \<Rightarrow> bool" where
  "vlt (Fin x) (Fin y) = (x < y)"
| "vlt (Fin x) PInf = True"
| "vlt NInf (Fin y) = True"
| "vlt NInf PInf = True"
| "vlt u v = False"

definition veq :: "fval \<Rightarrow> fval \<Rightarrow> bool" where
  "veq u v = (u \<noteq> NaN \<and> u = v)"

text \<open>
  The operators \<^verbatim>\<open>+\<close>, \<^verbatim>\<open>-\<close>, \<^verbatim>\<open>*\<close>, unary \<^verbatim>\<open>-\<close>, \<^verbatim>\<open><\<close>, \<^verbatim>\<open><=\<close> (and \<^verbatim>\<open>>\<close> as \<^verbatim>\<open><\<close> with
  the operands exchanged) and the literal \<^verbatim>\<open>0.0f\<close>; \<open>feq\<close> is \<^verbatim>\<open>==\<close> and \<open>fne\<close> is \<^verbatim>\<open>!=\<close>.
\<close>

instantiation float :: "{zero, uminus, plus, minus, times, ord}"
begin

definition zero_float :: float where
  "zero_float = Float False 0"

definition uminus_float :: "float \<Rightarrow> float" where
  "uminus_float x = Float (\<not> sign_bit x) (magnitude x)"

definition plus_float :: "float \<Rightarrow> float \<Rightarrow> float" where
  "plus_float a b = of_fval (vadd (valof a) (valof b))"

definition minus_float :: "float \<Rightarrow> float \<Rightarrow> float" where
  "minus_float a b = of_fval (vadd (valof a) (vneg (valof b)))"

definition times_float :: "float \<Rightarrow> float \<Rightarrow> float" where
  "times_float a b = of_fval (vmul (valof a) (valof b))"

definition less_float :: "float \<Rightarrow> float \<Rightarrow> bool" where
  "less_float a b = vlt (valof a) (valof b)"

definition less_eq_float :: "float \<Rightarrow> float \<Rightarrow> bool" where
  "less_eq_float a b = (vlt (valof a) (valof b) \<or> veq (valof a) (valof b))"

instance ..

end

definition feq :: "float \<Rightarrow> float \<Rightarrow> bool" where
  "feq a b = veq (valof a) (valof b)"

definition fne :: "float \<Rightarrow> float \<Rightarrow> bool" where
  "fne a b = (\<not> feq a b)"

definition is_nan :: "float \<Rightarrow> bool" where
  "is_nan x = (valof x = NaN)"

definition is_finite :: "float \<Rightarrow> bool" where
  "is_finite x = (case valof x of Fin q \<Rightarrow> True | _ \<Rightarrow> False)"

subsection \<open>Numeric helpers at \<^verbatim>\<open>T = float\<close>\<close>

definition constexpr_abs_f32 :: "float \<Rightarrow> float" where
  "constexpr_abs_f32 v = (if v < 0 then - v else v)"

definition fraction_less_than_zero_f32 :: "float \<Rightarrow> float \<Rightarrow> bool" where
  "fraction_less_than_zero_f32 nominator denominator =
     (if feq nominator 0 then False
      else if (nominator < 0) \<noteq> (denominator < 0) then True
      else False)"

definition fraction_between_zero_and_one_f32 :: "float \<Rightarrow> float \<Rightarrow> bool" where
  "fraction_between_zero_and_one_f32 nominator denominator =
     (if fraction_less_than_zero_f32 nominator denominator then False
      else if constexpr_abs_f32 nominator > constexpr_abs_f32 denominator then False
      else True)"

definition minmax_f32 :: "float \<Rightarrow> float \<Rightarrow> float \<times> float" where
  "minmax_f32 a b = (if b < a then (b, a) else (a, b))"

definition between_f32 :: "float \<Rightarrow> float \<Rightarrow> float \<Rightarrow> bool" where
  "between_f32 v border_1 border_2 =
     (let interval = minmax_f32 border_1 border_2
      in if v < fst interval then False
         else if v > snd interval then False
         else True)"

subsection \<open>Collision predicates on \<^verbatim>\<open>float\<close>\<close>

definition collision_point_point_f32 :: "float \<Rightarrow> float \<Rightarrow> float \<Rightarrow> float \<Rightarrow> bool" where
  "collision_point_point_f32 x1 y1 x2 y2 = (feq x1 x2 \<and> feq y1 y2)"

definition collision_point_line_f32 ::
  "float \<Rightarrow> float \<Rightarrow> float \<Rightarrow> float \<Rightarrow> float \<Rightarrow> float \<Rightarrow> bool" where
  "collision_point_line_f32 x1 y1 x2 y2 dx2 dy2 =
     (let dx12 = x1 - x2;
          dy12 = y1 - y2
      in if fne (dx12 * dy2) (dy12 * dx2) then False
         else let projection = dx12 * dx2 + dy12 * dy2
              in if \<not> between_f32 projection 0 (dx2 * dx2 + dy2 * dy2) then False
                 else True)"

definition collision_point_triangle_f32 ::
  "float \<Rightarrow> float \<Rightarrow> float \<Rightarrow> float \<Rightarrow> float \<Rightarrow> float \<Rightarrow> float \<Rightarrow> float \<Rightarrow> bool" where
  "collision_point_triangle_f32 x1 y1 x2 y2 sxa2 sya2 sxb2 syb2 =
     (let dx12 = x1 - x2;
          dy12 = y1 - y2;
          nominator_u = dx12 * syb2 - dy12 * sxb2;
          denominator_u = sxa2 * syb2 - sxb2 * sya2
      in if \<not> fraction_between_zero_and_one_f32 nominator_u denominator_u then False
         else let nominator_v = dx12 * sya2 - dy12 * sxa2;
                  denominator_v = - denominator_u
              in if \<not> fraction_between_zero_and_one_f32 nominator_v denominator_v then False
                 else let nominator_u_v = nominator_u - nominator_v
                      in if \<not> fraction_between_zero_and_one_f32 nominator_u_v denominator_u
                         then False
                         else True)"

definition collision_box_box_f32 ::
  "float \<Rightarrow> float \<Rightarrow> float \<Rightarrow> float \<Rightarrow> float \<Rightarrow> float \<Rightarrow> float \<Rightarrow> float \<Rightarrow> bool" where
  "collision_box_box_f32 x1 y1 w1 h1 x2 y2 w2 h2 =
     (if x1 + w1 < x2 then False
      else if y1 + h1 < y2 then False
      else if x2 + w2 < x1 then False
      else if y2 + h2 < y1 then False
      else True)"

section \<open>Properties of the exact embedding\<close>

subsection \<open>The compile-time assertions of the header\<close>

text \<open>
  The header ends with \<^verbatim>\<open>static_assert\<close> test cases. The exact embedding returns
  the asserted result on each of them (decimal literals are read as exact rationals); the
  cases of the four predicates embedded on binary32 are checked there as well, below.
\<close>

lemma assertions_helpers:
  "fraction_less_than_zero (-1::real) 3" "fraction_less_than_zero (1::real) (-3)"
  "\<not> fraction_less_than_zero (0::real) 3" "\<not> fraction_less_than_zero (0::real) (-3)"
  "\<not> fraction_less_than_zero (1::real) 3" "\<not> fraction_less_than_zero (-1::real) (-3)"
  "\<not> fraction_between_zero_and_one (-1::real) 3"
  "\<not> fraction_between_zero_and_one (1::real) (-3)"
  "fraction_between_zero_and_one (0::real) 3" "fraction_between_zero_and_one (0::real) (-3)"
  "fraction_between_zero_and_one (1::real) 3" "fraction_between_zero_and_one (-1::real) (-3)"
  "\<not> fraction_between_zero_and_one (3::real) 1"
  "\<not> fraction_between_zero_and_one (-3::real) 1"
  "\<not> fraction_between_zero_and_one (-3::real) (-1)"
  "overlap [1, 3, 4 :: int] [2, 1] = Some True" "overlap [1, 3, 4 :: int] [6, 5] = Some False"
  "overlap [-1, 6 :: int] [-3] = Some False" "overlap [-1, 6 :: int] [3] = Some True"
  "overlap [-1, 6 :: int] [-1] = Some True" "overlap [-1, 6 :: int] [6] = Some True"
  by code_simp+

lemma assertions_point:
  "collision_point_line 0.2 0.2 0 0 1 1" "\<not> collision_point_line 0.2 0.3 0 0 1 1"
  "collision_point_line 1 0 0 0 1 0" "collision_point_line 1 0 1 0 1 0"
  "\<not> collision_point_line 1 0 1.1 0 1 0"
  "collision_point_circle 2 3 4 5 3"
  "collision_point_box (-3) (-5) (-7) (-8) 20 18"
  by code_simp+

lemma assertions_line:
  "collision_line_line 0 0 1 1 0 1 1 (-1)" "\<not> collision_line_line 0 0 1 0 1.1 (-1) 0 2"
  "collision_line_line 0 0 1 0 0.9 (-1) 0 2" "\<not> collision_line_line 0 0 1 1 0 0.1 1 1"
  "collision_line_line 0 0 1 0 1 0 1 0" "\<not> collision_line_line 0 0 1 0 1.1 0 1 0"
  "\<not> collision_line_line 1.1 0 1 0 0 0 1 0"
  "collision_line_circle 1 1 8 8 (-3) (-3) 100 = Some True"
  "collision_line_circle 1 1 8 8 4 4 0.1 = Some True"
  "collision_line_circle 1 1 8 8 10 10 1.4 = Some False"
  "collision_line_circle 1 1 8 8 10 10 1.5 = Some True"
  "collision_line_box 3 2 8 11 0 1 10 10" "\<not> collision_line_box 11 0 11 13 0 1 10 10"
  "collision_line_box 1 1 7 7 2 2 4 4"
  "collision_line_triangle 3 0 0 2 2 1 (-1) 3 2 1 = Some True"
  "collision_line_triangle 2 4 2 0 2 1 (-1) 3 2 1 = Some False"
  "collision_line_triangle 2 1 (-1) 3 2 1 (-1) 3 2 1 = Some True"
  "collision_line_triangle 2 1 2 1 2 1 (-1) 3 2 1 = Some True"
  by code_simp+

lemma assertions_circle_box:
  "collision_circle_box 1 (-3) 4 (-5) (-4) 10 8 = Some True"
  "collision_circle_box 1 (-3) 1 (-5) (-2) 10 4 = Some True"
  "collision_circle_box 1 (-3) 0.9 (-5) (-2) 10 4 = Some False"
  "collision_circle_box 2 1 0.1 (-2) (-2) 4 4 = Some True"
  "collision_circle_box 3 3 1 (-2) (-2) 4 4 = Some False"
  "collision_circle_box 3 3 1.5 (-2) (-2) 4 4 = Some True"
  "collision_circle_box 3 3 2 (-2) (-2) 4 4 = Some True"
  "collision_circle_triangle 5 5 3 3 2 (-1) (-5) (-5) (-1) = Some False"
  "collision_circle_triangle 0 0 1 3 2 (-1) (-5) (-5) (-1) = Some True"
  "collision_circle_triangle 5 5 4 3 2 (-1) (-5) (-5) (-1) = Some True"
  "collision_box_box (-2) (-2) 6 8 2.5 5.5 4 4"
  "\<not> collision_box_box (-2) (-2) 6 8 3.1 6.1 2.8 2.8"
  by code_simp+

subsection \<open>Facts about the numeric helpers\<close>






lemma overlap_Cons:
  "overlap (a # as) (b # bs) =
     Some (\<not> foldl max b bs < foldl min a as \<and> \<not> foldl max a as < foldl min b bs)"
  by (simp add: overlap_def)

lemma overlap_swap_second: "overlap xs [b, a] = overlap xs [a, b]"
  by (simp add: overlap_def min.commute max.commute split: option.splits)

lemma overlap_negated_bound: "overlap xs [r, - r] = overlap xs [- r, r]"
  by (rule overlap_swap_second)

text \<open>Results that are \<open>Some\<close> in every branch are \<open>Some\<close> as a whole.\<close>

lemma if_Some: "(if c then Some a else Some b) = Some (if c then a else b)"
  by simp

lemma let_Some: "Let e (\<lambda>x. Some (f x)) = Some (Let e f)"
  by (simp add: Let_def)

lemma line_circle_returns: "\<exists>b. collision_line_circle x1 y1 dx1 dy1 x2 y2 r2 = Some b"
  unfolding collision_line_circle_def
  by (simp only: overlap_Cons option.case if_Some let_Some) blast

lemma line_triangle_returns:
  "\<exists>b. collision_line_triangle x1 y1 dx1 dy1 x2 y2 sxa2 sya2 sxb2 syb2 = Some b"
  unfolding collision_line_triangle_def
  by (simp only: overlap_Cons option.case if_Some let_Some) blast

lemma circle_box_returns: "\<exists>b. collision_circle_box x1 y1 r1 x2 y2 w2 h2 = Some b"
  unfolding collision_circle_box_def
  by (simp only: overlap_Cons option.case if_Some let_Some) blast

lemma circle_triangle_returns:
  "\<exists>b. collision_circle_triangle x1 y1 r1 x2 y2 sxa2 sya2 sxb2 syb2 = Some b"
  unfolding collision_circle_triangle_def
  by (simp only: overlap_Cons option.case if_Some let_Some) blast

subsection \<open>Division-free fraction tests\<close>



subsection \<open>Symmetry of the same-kind predicates\<close>

lemma line_line_commute:
  "collision_line_line x1 y1 dx1 dy1 x2 y2 dx2 dy2 =
   collision_line_line x2 y2 dx2 dy2 x1 y1 dx1 dy1"
proof -
  have cross: "dx1 * dy2 - dy1 * dx2 = - (dx2 * dy1 - dy2 * dx1)"
    by (simp add: algebra_simps)
  have on_n1: "(y1 - y2) * dx2 - (x1 - x2) * dy2 = (x2 - x1) * dy2 - (y2 - y1) * dx2"
    by (simp add: algebra_simps)
  have on_n2: "(x1 - x2) * dy1 - (y1 - y2) * dx1 = (y2 - y1) * dx1 - (x2 - x1) * dy1"
    by (simp add: algebra_simps)
  show ?thesis
    unfolding collision_line_line_def Let_def cross on_n1 on_n2
    by auto
qed

lemma circle_circle_commute:
  "collision_circle_circle x1 y1 r1 x2 y2 r2 = collision_circle_circle x2 y2 r2 x1 y1 r1"
proof -
  have "(x1 - x2) * (x1 - x2) = (x2 - x1) * (x2 - x1)"
       "(y1 - y2) * (y1 - y2) = (y2 - y1) * (y2 - y1)"
    by (simp_all add: algebra_simps)
  then show ?thesis
    unfolding collision_circle_circle_def Let_def by (simp add: add.commute)
qed

lemma box_box_commute:
  "collision_box_box x1 y1 w1 h1 x2 y2 w2 h2 = collision_box_box x2 y2 w2 h2 x1 y1 w1 h1"
  unfolding collision_box_box_def by auto

text \<open>
  C2. \<^verbatim>\<open>collision_line_line\<close>, \<^verbatim>\<open>collision_circle_circle\<close> and \<^verbatim>\<open>collision_box_box\<close> return
  the same result when the argument blocks of their two shapes are swapped.
\<close>

theorem same_kind_symmetric:
  "collision_line_line x1 y1 dx1 dy1 x2 y2 dx2 dy2 =
     collision_line_line x2 y2 dx2 dy2 x1 y1 dx1 dy1 \<and>
   collision_circle_circle cx1 cy1 r1 cx2 cy2 r2 =
     collision_circle_circle cx2 cy2 r2 cx1 cy1 r1 \<and>
   collision_box_box qx1 qy1 w1 h1 qx2 qy2 w2 h2 =
     collision_box_box qx2 qy2 w2 h2 qx1 qy1 w1 h1"
  by (intro conjI line_line_commute circle_circle_commute box_box_commute)

subsection \<open>Boxes\<close>

text \<open>
  C9. A box with zero extents behaves like the point at its origin:
  \<^verbatim>\<open>collision_box_box(x1, y1, 0, 0, x2, y2, w2, h2)\<close> equals
  \<^verbatim>\<open>collision_point_box(x1, y1, x2, y2, w2, h2)\<close>.
\<close>

theorem box_box_zero_extents:
  "collision_box_box x1 y1 0 0 x2 y2 w2 h2 = collision_point_box x1 y1 x2 y2 w2 h2"
  by (simp add: collision_box_box_def collision_point_box_def)

subsection \<open>Line against box\<close>

text \<open>
  C6. If the origin \<open>(x1, y1)\<close> of a segment or its endpoint \<open>(x1 + dx1, y1 + dy1)\<close> lies
  in the box, \<^verbatim>\<open>collision_line_box\<close> returns true.
\<close>

theorem line_box_endpoint_inside:
  "collision_point_box x1 y1 x2 y2 w2 h2 \<or>
   collision_point_box (x1 + dx1) (y1 + dy1) x2 y2 w2 h2 \<Longrightarrow>
   collision_line_box x1 y1 dx1 dy1 x2 y2 w2 h2"
  unfolding collision_line_box_def by auto

theorem line_box_endpoint_inside_witness:
  "collision_point_box 3 2 0 1 10 10 \<and> collision_line_box 3 2 8 11 0 1 10 10 \<and>
   \<not> collision_point_box 11 0 0 1 10 10 \<and>
   collision_point_box (11 + (-6)) (0 + 5) 0 1 10 10 \<and>
   collision_line_box 11 0 (-6) 5 0 1 10 10"
proof -
  have origin: "collision_point_box 3 2 0 1 10 10"
    by (simp add: collision_point_box_def)
  have endpoint: "collision_point_box (11 + (-6)) (0 + 5) 0 1 10 10"
    by (simp add: collision_point_box_def)
  have outside: "\<not> collision_point_box 11 0 0 1 10 10"
    by (simp add: collision_point_box_def)
  from origin have "collision_line_box 3 2 8 11 0 1 10 10"
    by (intro line_box_endpoint_inside disjI1)
  moreover from endpoint have "collision_line_box 11 0 (-6) 5 0 1 10 10"
    by (intro line_box_endpoint_inside disjI2)
  ultimately show ?thesis
    using origin endpoint outside by blast
qed

subsection \<open>Negated radius\<close>

lemma point_circle_negated_radius:
  "collision_point_circle x1 y1 x2 y2 r = collision_point_circle x1 y1 x2 y2 (- r)"
  by (simp add: collision_point_circle_def)

lemma circle_box_negated_radius:
  "collision_circle_box x1 y1 r x2 y2 w2 h2 = collision_circle_box x1 y1 (- r) x2 y2 w2 h2"
  unfolding collision_circle_box_def
  by (simp only: minus_minus mult_minus_left mult_minus_right overlap_negated_bound)

text \<open>
  C10. \<^verbatim>\<open>collision_point_circle\<close> and \<^verbatim>\<open>collision_circle_box\<close> return the same result
  for the radius \<open>r\<close> and for \<open>- r\<close>.
\<close>

theorem negated_radius_invariant:
  "collision_point_circle x1 y1 x2 y2 r = collision_point_circle x1 y1 x2 y2 (- r) \<and>
   collision_circle_box cx cy r qx qy w h = collision_circle_box cx cy (- r) qx qy w h"
  by (intro conjI point_circle_negated_radius circle_box_negated_radius)

subsection \<open>The precondition of \<^verbatim>\<open>overlap\<close>\<close>

text \<open>
  \<^verbatim>\<open>overlap\<close> hands both of its lists to \<^verbatim>\<open>std::minmax\<close> and has no result exactly when
  one of them is empty; the four predicates that call it pass non-empty lists
  (\<open>line_circle_returns\<close>, \<open>line_triangle_returns\<close>, \<open>circle_box_returns\<close>,
  \<open>circle_triangle_returns\<close> above).
\<close>

lemma overlap_None_iff: "(overlap xs ys = None) = (xs = [] \<or> ys = [])"
  by (cases xs; cases ys) (simp_all add: overlap_def)

section \<open>Properties of the binary32 embedding\<close>

subsection \<open>Known values and the compile-time assertions\<close>

text \<open>
  The rounding agrees with binary32 on landmark values: \<^verbatim>\<open>1.0f\<close> is \<^verbatim>\<open>0x3F800000\<close>,
  \<^verbatim>\<open>0.1f\<close> is \<^verbatim>\<open>0x3DCCCCCD\<close>, \<open>2^24 + 1\<close> rounds to \<open>2^24\<close> (tie to even), half of the
  smallest subnormal rounds to zero, the largest finite value is \<^verbatim>\<open>0x7F7FFFFF\<close> and
  \<open>2^128 - 2^103\<close> overflows to infinity.
\<close>

lemma float_literals:
  "to_float 1 = Float False 0x3F800000"
  "to_float (1 / 10) = Float False 0x3DCCCCCD"
  "to_float (- 3) = Float True 0x40400000"
  "valof (to_float (2 ^ 24 + 1)) = Fin (2 ^ 24)"
  "to_float (1 / 2 ^ 150) = Float False 0"
  "to_float (1 / 2 ^ 149) = Float False 1"
  "to_float (2 ^ 128 - 2 ^ 104) = Float False 0x7F7FFFFF"
  "to_float (2 ^ 128 - 2 ^ 103) = pos_inf"
  by code_simp+

text \<open>
  \<^verbatim>\<open>static_assert\<close> cases of the predicates embedded here, with each literal rounded
  to binary32 first.
\<close>

lemma assertions_f32:
  "\<not> collision_point_point_f32 (to_float 1) (to_float 2) (to_float 3) (to_float 4)"
  "collision_point_point_f32 (to_float 1) (to_float 9) (to_float 1) (to_float 9)"
  "\<not> collision_point_line_f32 (to_float 1) 0 (to_float 1.1) 0 (to_float 1) 0"
  "collision_box_box_f32 (to_float (- 2)) (to_float (- 2)) (to_float 6) (to_float 8)
     (to_float 2.5) (to_float 5.5) (to_float 4) (to_float 4)"
  "\<not> collision_box_box_f32 (to_float (- 2)) (to_float (- 2)) (to_float 6) (to_float 8)
     (to_float 3.1) (to_float 6.1) (to_float 2.8) (to_float 2.8)"
  by code_simp+

subsection \<open>The magnitudes are increasing in the index\<close>

lemma hb_pos: "0 < hidden_bit"
  by (simp add: hidden_bit_def)

lemma ival_subnormal: "0 \<le> m \<Longrightarrow> m < hidden_bit \<Longrightarrow> ival m = m"
  by (simp add: ival_def)

lemma ival_normal:
  assumes "0 \<le> m" "m < hidden_bit" "1 \<le> e"
  shows "ival (e * hidden_bit + m) = (hidden_bit + m) * 2 ^ nat (e - 1)"
proof -
  have "(e * hidden_bit + m) div hidden_bit = e" "(e * hidden_bit + m) mod hidden_bit = m"
    using assms hb_pos by simp_all
  then show ?thesis using assms by (simp add: ival_def)
qed

lemma ival_strict_mono:
  assumes "0 \<le> j" "j < k"
  shows "ival j < ival k"
proof -
  define c where "c = hidden_bit"
  have c: "0 < c" by (simp add: c_def hb_pos)
  define ej mj ek mk where "ej = j div c" and "mj = j mod c" and "ek = k div c" and "mk = k mod c"
  have j: "j = ej * c + mj" and k: "k = ek * c + mk"
    by (simp_all add: ej_def mj_def ek_def mk_def)
  have mj: "0 \<le> mj" "mj < c" and mk: "0 \<le> mk" "mk < c"
    using c by (simp_all add: mj_def mk_def)
  have ej: "0 \<le> ej" using assms c by (simp add: ej_def pos_imp_zdiv_nonneg_iff)
  have le: "ej \<le> ek" using assms c by (simp add: ej_def ek_def zdiv_mono1)
  have vj: "ival j = (if ej = 0 then mj else (c + mj) * 2 ^ nat (ej - 1))"
    by (simp add: ival_def ej_def mj_def c_def Let_def)
  have vk: "ival k = (if ek = 0 then mk else (c + mk) * 2 ^ nat (ek - 1))"
    by (simp add: ival_def ek_def mk_def c_def Let_def)
  show ?thesis
  proof (cases "ej = ek")
    case True
    with assms j k have "mj < mk" by simp
    then show ?thesis using True vj vk by simp
  next
    case False
    with le have lt: "ej < ek" by simp
    then have ek1: "1 \<le> ek" using ej by simp
    have "c * 2 ^ nat (ek - 1) \<le> (c + mk) * 2 ^ nat (ek - 1)"
      using mk by (intro mult_right_mono) simp_all
    then have big: "c * 2 ^ nat (ek - 1) \<le> ival k" using vk ek1 by simp
    show ?thesis
    proof (cases "ej = 0")
      case True
      have "c * 1 \<le> c * 2 ^ nat (ek - 1)"
        using c by (intro mult_left_mono) simp_all
      then have "c \<le> ival k" using big by simp
      then show ?thesis using True vj mj by simp
    next
      case False
      then have ej1: "1 \<le> ej" using ej by simp
      have "(c + mj) * 2 ^ nat (ej - 1) < (2 * c) * 2 ^ nat (ej - 1)"
        using mj by (intro mult_strict_right_mono) simp_all
      also have "\<dots> = c * 2 ^ Suc (nat (ej - 1))" by simp
      also have "Suc (nat (ej - 1)) = nat ej" using ej1 by simp
      also have "c * 2 ^ nat ej \<le> c * 2 ^ nat (ek - 1)"
        using c lt by (intro mult_left_mono power_increasing) simp_all
      finally have "(c + mj) * 2 ^ nat (ej - 1) < c * 2 ^ nat (ek - 1)" .
      then have "(c + mj) * 2 ^ nat (ej - 1) < ival k" using big by linarith
      then show ?thesis using False vj by simp
    qed
  qed
qed

lemma ival_mono: "0 \<le> j \<Longrightarrow> j \<le> k \<Longrightarrow> ival j \<le> ival k"
  using ival_strict_mono [of j k] by (cases "j = k") simp_all

lemma ival_nonneg: "0 \<le> k \<Longrightarrow> 0 \<le> ival k"
  using ival_mono [of 0 k] by (simp add: ival_def)

lemma ival_inf_index: "ival inf_index = 2 ^ 254 * hidden_bit"
  using ival_normal [of 0 255] hb_pos by (simp add: inf_index_def)

subsection \<open>Rounding picks a neighbour and never crosses a representable value\<close>

lemma floor_index_spec:
  assumes "0 \<le> t"
  shows "0 \<le> floor_index t \<and> floor_index t \<le> inf_index \<and>
         of_int (ival (floor_index t)) \<le> t \<and>
         (floor_index t < inf_index \<longrightarrow> t < of_int (ival (floor_index t + 1)))"
proof -
  define c where "c = hidden_bit"
  have c: "0 < c" by (simp add: c_def hb_pos)
  have c23: "c = 2 ^ 23" by (simp add: c_def hidden_bit_def)
  define n where "n = \<lfloor>t\<rfloor>"
  have n0: "0 \<le> n" using assms by (simp add: n_def)
  have nt: "of_int n \<le> t" "t < of_int (n + 1)"
    using floor_correct [of t] by (simp_all add: n_def)
  have inf: "inf_index = 255 * c" by (simp add: inf_index_def c_def)
  have goal: "0 \<le> k \<and> k \<le> inf_index \<and> of_int (ival k) \<le> t \<and>
      (k < inf_index \<longrightarrow> t < of_int (ival (k + 1)))"
    if "0 \<le> k" "k \<le> inf_index" "ival k \<le> n" "k < inf_index \<Longrightarrow> n + 1 \<le> ival (k + 1)" for k
  proof -
    have "(of_int (ival k) :: rat) \<le> of_int n" using that(3) by simp
    then have 1: "of_int (ival k) \<le> t" using nt(1) by linarith
    have 2: "t < of_int (ival (k + 1))" if "k < inf_index"
    proof -
      have "(of_int (n + 1) :: rat) \<le> of_int (ival (k + 1))"
        using \<open>k < inf_index \<Longrightarrow> n + 1 \<le> ival (k + 1)\<close> [OF that] by (simp only: of_int_le_iff)
      then show ?thesis using nt(2) by linarith
    qed
    show ?thesis using that(1,2) 1 2 by blast
  qed
  consider (sub) "n < c" | (over) "2 ^ 254 * c \<le> n" | (norm) "c \<le> n" "n < 2 ^ 254 * c"
    by linarith
  then show ?thesis
  proof cases
    case sub
    then have fi: "floor_index t = n" by (simp add: floor_index_def n_def[symmetric] c_def)
    have "ival (n + 1) = n + 1"
    proof (cases "n + 1 < c")
      case True
      then show ?thesis using n0 by (simp add: ival_subnormal c_def)
    next
      case False
      with sub have "n + 1 = 1 * c + 0" by simp
      moreover have "ival (1 * hidden_bit + 0) = (hidden_bit + 0) * 2 ^ nat (1 - 1)"
        using hb_pos by (intro ival_normal) simp_all
      ultimately show ?thesis by (simp add: c_def)
    qed
    moreover have "ival n = n" using sub n0 by (simp add: ival_subnormal c_def)
    moreover have "n \<le> inf_index" using sub c inf by simp
    ultimately show ?thesis unfolding fi using n0 by (intro goal) simp_all
  next
    case over
    then have fi: "floor_index t = inf_index"
      using c by (simp add: floor_index_def n_def[symmetric] c_def Let_def)
    have "0 \<le> inf_index" using inf c by simp
    then show ?thesis unfolding fi using over by (intro goal) (simp_all add: ival_inf_index c_def)
  next
    case norm
    define s where "s = bitlen n - 24"
    define M where "M = n div 2 ^ nat s"
    have fi: "floor_index t = (s + 1) * c + (M - c)"
      using norm by (simp add: floor_index_def n_def[symmetric] c_def[symmetric] Let_def s_def M_def)
    have npos: "0 < n" using norm c by simp
    have bb: "2 ^ nat (bitlen n - 1) \<le> n" "n < 2 ^ nat (bitlen n)"
      using bitlen_bounds [OF npos] by simp_all
    have "(2::int) ^ 23 < 2 ^ nat (bitlen n)" using norm(1) bb(2) c23 by simp
    then have "23 < nat (bitlen n)" by (simp only: power_strict_increasing_iff) 
    then have s0: "0 \<le> s" by (simp add: s_def)
    have "(2::int) ^ nat (bitlen n - 1) < 2 ^ 277"
      using bb(1) norm(2) c23 by simp
    then have "nat (bitlen n - 1) < 277" by (simp only: power_strict_increasing_iff)
    then have s253: "s \<le> 253" by (simp add: s_def)
    have e1: "nat (bitlen n - 1) = nat s + 23" and e2: "nat (bitlen n) = nat s + 24"
      using s0 by (simp_all add: s_def)
    define P where "P = (2::int) ^ nat s"
    define R where "R = n mod P"
    have P: "0 < P" by (simp add: P_def)
    have lo: "c * P \<le> n" using bb(1) by (simp add: e1 power_add c23 P_def)
    have hi: "n < 2 * (c * P)" using bb(2) by (simp add: e2 power_add c23 P_def)
    have nM: "n = M * P + R" unfolding M_def R_def P_def by (rule div_mult_mod_eq [symmetric])
    have r: "0 \<le> R" "R < P" using P by (simp_all add: R_def)
    have Mlo: "c \<le> M"
    proof (rule ccontr)
      assume "\<not> c \<le> M"
      then have "M + 1 \<le> c" by simp
      then have "(M + 1) * P \<le> c * P" using P by (intro mult_right_mono) simp_all
      then have "M * P + P \<le> c * P" by (simp add: algebra_simps)
      then show False using nM r lo by linarith
    qed
    have Mhi: "M < 2 * c"
    proof (rule ccontr)
      assume "\<not> M < 2 * c"
      then have "2 * c \<le> M" by simp
      then have "(2 * c) * P \<le> M * P" using P by (intro mult_right_mono) simp_all
      then have "2 * (c * P) \<le> M * P" by (simp add: algebra_simps)
      then show False using nM r hi by linarith
    qed
    have vk: "ival ((s + 1) * c + (M - c)) = M * P"
      using ival_normal [of "M - c" "s + 1"] Mlo Mhi s0 by (simp add: c_def P_def)
    have vk1: "ival ((s + 1) * c + (M - c) + 1) = (M + 1) * P"
    proof (cases "M + 1 < 2 * c")
      case True
      then show ?thesis
        using ival_normal [of "M - c + 1" "s + 1"] Mlo s0 by (simp add: c_def P_def algebra_simps)
    next
      case False
      with Mhi have M: "M + 1 = 2 * c" by simp
      then have "(s + 1) * c + (M - c) + 1 = (s + 2) * c + 0" by (simp add: algebra_simps)
      moreover have "ival ((s + 2) * hidden_bit + 0) = (hidden_bit + 0) * 2 ^ nat (s + 2 - 1)"
        using hb_pos s0 by (intro ival_normal) simp_all
      moreover have "nat (s + 2 - 1) = Suc (nat s)" using s0 by simp
      ultimately show ?thesis using M by (simp add: c_def P_def)
    qed
    have k0: "0 \<le> (s + 1) * c + (M - c)" using s0 c Mlo by simp
    have "(s + 1) * c \<le> 254 * c" using s253 c by (intro mult_right_mono) simp_all
    then have kinf: "(s + 1) * c + (M - c) \<le> inf_index" using Mhi inf by simp
    have le: "M * P \<le> n" using nM r by simp
    have "(M + 1) * P = M * P + P" by (simp add: algebra_simps)
    then have lt: "n + 1 \<le> (M + 1) * P" using nM r by linarith
    show ?thesis unfolding fi using k0 kinf le lt vk vk1 by (intro goal) simp_all
  qed
qed

lemma inf_index_nonneg: "0 \<le> inf_index"
  by (simp add: inf_index_def hidden_bit_def)

lemma floor_index_greatest:
  assumes "0 \<le> t" "0 \<le> j" "j \<le> inf_index" "of_int (ival j) \<le> t"
  shows "j \<le> floor_index t"
proof (rule ccontr)
  assume "\<not> j \<le> floor_index t"
  then have lt: "floor_index t + 1 \<le> j" by simp
  note sp = floor_index_spec [OF assms(1)]
  from lt assms(3) have "floor_index t < inf_index" by simp
  with sp have "t < of_int (ival (floor_index t + 1))" by blast
  moreover have "ival (floor_index t + 1) \<le> ival j"
    using lt sp by (intro ival_mono) simp_all
  then have "(of_int (ival (floor_index t + 1)) :: rat) \<le> of_int (ival j)"
    by (simp only: of_int_le_iff)
  ultimately show False using assms(4) by linarith
qed

lemma round_index_cases:
  "round_index t = floor_index t \<or>
   (floor_index t \<noteq> inf_index \<and> round_index t = floor_index t + 1)"
  by (simp add: round_index_def Let_def)

lemma round_index_down:
  assumes "floor_index t = k" "k \<noteq> inf_index"
    "t - of_int (ival k) < of_int (ival (k + 1)) - t"
  shows "round_index t = k"
  using assms by (simp add: round_index_def Let_def)

lemma round_index_range:
  assumes "0 \<le> t"
  shows "0 \<le> round_index t \<and> round_index t \<le> inf_index"
  using floor_index_spec [OF assms] round_index_cases [of t] by auto

lemma round_index_ge:
  assumes "0 \<le> t" "0 \<le> j" "j \<le> inf_index" "of_int (ival j) \<le> t"
  shows "j \<le> round_index t"
  using floor_index_greatest [OF assms] round_index_cases [of t] by auto

lemma round_index_le:
  assumes "0 \<le> t" "0 \<le> j" "j \<le> inf_index" "t \<le> of_int (ival j)"
  shows "round_index t \<le> j"
proof -
  define k where "k = floor_index t"
  note sp = floor_index_spec [OF assms(1), folded k_def]
  have kj: "k \<le> j"
  proof (rule ccontr)
    assume "\<not> k \<le> j"
    then have "ival j < ival k" using assms(2) by (intro ival_strict_mono) simp_all
    then have "(of_int (ival j) :: rat) < of_int (ival k)" by (simp only: of_int_less_iff)
    then show False using sp assms(4) by linarith
  qed
  show ?thesis
  proof (cases "k = j")
    case True
    show ?thesis
    proof (cases "k = inf_index")
      case True
      then show ?thesis using \<open>k = j\<close> by (simp add: round_index_def k_def[symmetric])
    next
      case False
      then have "k < inf_index" using sp by simp
      with sp have "t < of_int (ival (k + 1))" by blast
      moreover have "t = of_int (ival k)" using sp assms(4) True by simp
      ultimately have "t - of_int (ival k) < of_int (ival (k + 1)) - t" by simp
      with False have "round_index t = k"
        by (intro round_index_down) (simp_all add: k_def)
      then show ?thesis using True by simp
    qed
  next
    case False
    with kj have "k + 1 \<le> j" by simp
    then show ?thesis using round_index_cases [of t] kj by (auto simp: k_def)
  qed
qed

lemma round_index_exact:
  assumes "0 \<le> j" "j \<le> inf_index"
  shows "round_index (of_int (ival j)) = j"
proof -
  have t0: "(0::rat) \<le> of_int (ival j)" using ival_nonneg [OF assms(1)] by simp
  have "j \<le> round_index (of_int (ival j))"
    using t0 assms by (intro round_index_ge) simp_all
  moreover have "round_index (of_int (ival j)) \<le> j"
    using t0 assms by (intro round_index_le) simp_all
  ultimately show ?thesis by simp
qed

lemma inf_index_less: "inf_index < 2 ^ 31"
  by (simp add: inf_index_def hidden_bit_def)

lemma uint_index:
  assumes "0 \<le> r" "r \<le> inf_index"
  shows "uint (word_of_int r :: 31 word) = r"
proof -
  have "r < 2 ^ 31" using assms(2) inf_index_less by linarith
  then show ?thesis using assms(1) by (simp add: uint_word_of_int_eq take_bit_int_eq_self)
qed

lemma valof_to_float:
  "valof (to_float q) =
     (let r = round_index (\<bar>q\<bar> * 2 ^ 149)
      in if r = inf_index then (if q < 0 then NInf else PInf)
         else Fin ((if q < 0 then - 1 else 1) * of_int (ival r) / 2 ^ 149))"
proof -
  have "0 \<le> \<bar>q\<bar> * 2 ^ 149" by simp
  from round_index_range [OF this]
  have r: "0 \<le> round_index (\<bar>q\<bar> * 2 ^ 149)" "round_index (\<bar>q\<bar> * 2 ^ 149) \<le> inf_index"
    by simp_all
  show ?thesis
    using r by (simp add: to_float_def uint_index Let_def)
qed

subsection \<open>Values of the constants and of rounded results\<close>

lemma uint_below:
  assumes "0 \<le> r" "r < 2 ^ 31"
  shows "uint (word_of_int r :: 31 word) = r"
  using assms by (simp add: uint_word_of_int_eq take_bit_int_eq_self)

lemma valof_quiet_nan [simp]: "valof quiet_nan = NaN"
  by (simp add: quiet_nan_def inf_index_def hidden_bit_def uint_below)

lemma valof_pos_inf [simp]: "valof pos_inf = PInf"
  by (simp add: pos_inf_def uint_index inf_index_nonneg)

lemma valof_neg_inf [simp]: "valof neg_inf = NInf"
  by (simp add: neg_inf_def uint_index inf_index_nonneg)

lemma valof_zero [simp]: "valof 0 = Fin 0"
  by (simp add: zero_float_def inf_index_def hidden_bit_def ival_def)

lemma valof_uminus [simp]: "valof (- x) = vneg (valof x)"
  by (cases x) (simp add: uminus_float_def Let_def)

lemma valof_to_float_not_nan [simp]: "valof (to_float q) \<noteq> NaN"
  by (simp add: valof_to_float Let_def)

lemma round_index_zero: "round_index 0 = 0"
  using round_index_exact [of 0] inf_index_nonneg by (simp add: ival_def)

lemma valof_to_float_zero [simp]: "valof (to_float 0) = Fin 0"
  using inf_index_nonneg
  by (auto simp add: valof_to_float round_index_zero ival_def inf_index_def hidden_bit_def)

lemma valof_of_fval:
  "valof (of_fval v) = (case v of Fin q \<Rightarrow> valof (to_float q) | _ \<Rightarrow> v)"
  by (cases v) simp_all

lemma to_float_ge:
  assumes "valof f = Fin a" "a \<le> q"
  shows "\<not> vlt (valof (to_float q)) (Fin a)"
proof (cases f)
  case (Float s m)
  define k where "k = uint m"
  have k: "0 \<le> k" "k < inf_index" and a: "a = (if s then - 1 else 1) * of_int (ival k) / 2 ^ 149"
    using assms(1) Float by (auto simp: k_def Let_def split: if_splits)
  define r where "r = round_index (\<bar>q\<bar> * 2 ^ 149)"
  have r: "0 \<le> r" "r \<le> inf_index"
    using round_index_range [of "\<bar>q\<bar> * 2 ^ 149"] by (simp_all add: r_def)
  have v: "valof (to_float q) =
      (if r = inf_index then (if q < 0 then NInf else PInf)
       else Fin ((if q < 0 then - 1 else 1) * of_int (ival r) / 2 ^ 149))"
    by (simp add: valof_to_float r_def Let_def)
  have ik: "(0::rat) \<le> of_int (ival k)" using ival_nonneg [OF k(1)] by simp
  have ir: "(0::rat) \<le> of_int (ival r)" using ival_nonneg [OF r(1)] by simp
  show ?thesis
  proof (cases "q < 0")
    case False
    show ?thesis
    proof (cases s)
      case True
      then have "a \<le> 0" using a ik by (simp add: divide_nonpos_pos)
      moreover have "0 \<le> of_int (ival r) / (2 ^ 149 :: rat)" using ir by simp
      ultimately show ?thesis using v False by (simp add: not_less)
    next
      case s: False
      then have "of_int (ival k) = a * 2 ^ 149" using a by simp
      also have "\<dots> \<le> q * 2 ^ 149" using assms(2) by (intro mult_right_mono) simp_all
      finally have "of_int (ival k) \<le> \<bar>q\<bar> * 2 ^ 149" using False by simp
      then have "k \<le> r"
        unfolding r_def using k by (intro round_index_ge) simp_all
      then have "ival k \<le> ival r" using k(1) by (intro ival_mono)
      then have "(of_int (ival k) :: rat) \<le> of_int (ival r)" by (simp only: of_int_le_iff)
      then have "a \<le> of_int (ival r) / 2 ^ 149" using a s by (simp add: divide_right_mono)
      then show ?thesis using v False by (simp add: not_less)
    qed
  next
    case True
    with assms(2) have a0: "a < 0" by simp
    have s: s
    proof (rule ccontr)
      assume "\<not> s"
      then have "0 \<le> a" using a ik by simp
      with a0 show False by simp
    qed
    then have "of_int (ival k) = - a * 2 ^ 149" using a by simp
    moreover have "- q * 2 ^ 149 \<le> - a * 2 ^ 149"
      using assms(2) by (intro mult_right_mono) simp_all
    ultimately have "\<bar>q\<bar> * 2 ^ 149 \<le> of_int (ival k)" using True by simp
    then have "r \<le> k"
      unfolding r_def using k by (intro round_index_le) simp_all
    then have rk: "ival r \<le> ival k" using r(1) by (intro ival_mono)
    have "r \<noteq> inf_index" using \<open>r \<le> k\<close> k(2) by simp
    moreover have "a \<le> - (of_int (ival r) / 2 ^ 149)"
    proof -
      have "(of_int (ival r) :: rat) \<le> of_int (ival k)" using rk by (simp only: of_int_le_iff)
      then have "of_int (ival r) / (2 ^ 149 :: rat) \<le> of_int (ival k) / 2 ^ 149"
        by (simp add: divide_right_mono)
      then show ?thesis using a s by simp
    qed
    ultimately show ?thesis using v True by (simp add: not_less)
  qed
qed

subsection \<open>Facts about the operators\<close>

lemma is_finite_iff: "is_finite x = (\<exists>q. valof x = Fin q)"
  by (cases "valof x") (simp_all add: is_finite_def)

lemma feq_zero_iff: "feq d 0 = (valof d = Fin 0)"
  by (auto simp: feq_def veq_def)

lemma nonneg_cases:
  assumes "(0::float) \<le> w"
  obtains (fin) b where "valof w = Fin b" "0 \<le> b" | (inf) "valof w = PInf"
  using assms by (cases "valof w") (auto simp: less_eq_float_def veq_def)

lemma add_nonneg_not_less:
  assumes "(0::float) \<le> w"
  shows "\<not> x + w < x"
  using assms
proof (cases rule: nonneg_cases)
  case (fin b)
  show ?thesis
  proof (cases "valof x")
    case (Fin a)
    have "\<not> vlt (valof (to_float (a + b))) (Fin a)"
      using Fin fin(2) by (intro to_float_ge [of x]) simp_all
    then show ?thesis using Fin fin(1) by (simp add: less_float_def plus_float_def)
  qed (simp_all add: less_float_def plus_float_def fin(1))
next
  case inf
  then show ?thesis
    by (cases "valof x") (simp_all add: less_float_def plus_float_def)
qed

lemma sub_self: "is_finite x \<Longrightarrow> valof (x - x) = Fin 0"
  by (auto simp: is_finite_iff minus_float_def)

lemma mul_zero_left: "valof z = Fin 0 \<Longrightarrow> is_finite s \<Longrightarrow> valof (z * s) = Fin 0"
  by (auto simp: is_finite_iff times_float_def)

lemma mul_zero_right:
  "valof z = Fin 0 \<Longrightarrow> valof (d * z) = (if is_finite d then Fin 0 else NaN)"
  by (cases "valof d") (simp_all add: is_finite_def times_float_def)

lemma sub_zero_zero: "valof a = Fin 0 \<Longrightarrow> valof b = Fin 0 \<Longrightarrow> valof (a - b) = Fin 0"
  by (simp add: minus_float_def)

lemma abs_not_less_zero: "valof z = Fin 0 \<Longrightarrow> \<not> constexpr_abs_f32 d < z"
  by (cases "valof d") (simp_all add: constexpr_abs_f32_def less_float_def)

lemma fraction_zero_nominator_f32:
  assumes "valof n = Fin 0"
  shows "fraction_between_zero_and_one_f32 n d"
proof -
  have "feq n 0" using assms by (simp add: feq_def veq_def)
  then have "\<not> fraction_less_than_zero_f32 n d"
    by (simp add: fraction_less_than_zero_f32_def)
  moreover have "\<not> n < 0" using assms by (simp add: less_float_def)
  then have "constexpr_abs_f32 n = n" by (simp add: constexpr_abs_f32_def)
  then have "\<not> constexpr_abs_f32 d < constexpr_abs_f32 n"
    using abs_not_less_zero [OF assms] by simp
  ultimately show ?thesis by (simp add: fraction_between_zero_and_one_f32_def)
qed

subsection \<open>Point against point\<close>

text \<open>
  \<^verbatim>\<open>NaN == NaN\<close> is false, so a point with a NaN coordinate does not collide with
  itself.
\<close>

theorem point_point_f32_exact_counterexample:
  "\<not> collision_point_point_f32 quiet_nan 0 quiet_nan 0"
  by code_simp

text \<open>
  C5, as amended. \<^verbatim>\<open>collision_point_point(x, y, x, y)\<close> is true exactly when neither
  \<open>x\<close> nor \<open>y\<close> is NaN; and \<^verbatim>\<open>collision_point_point(x1, y1, x2, y2)\<close> is true only when
  \<open>x1\<close> and \<open>x2\<close> denote the same number and \<open>y1\<close> and \<open>y2\<close> denote the same number,
  none of them NaN: the comparison has no tolerance.
\<close>

theorem point_point_f32_exact:
  "collision_point_point_f32 x y x y = (\<not> is_nan x \<and> \<not> is_nan y) \<and>
   (collision_point_point_f32 x1 y1 x2 y2 \<longrightarrow>
      valof x1 = valof x2 \<and> valof y1 = valof y2 \<and> \<not> is_nan x1 \<and> \<not> is_nan y1)"
  by (auto simp: collision_point_point_f32_def feq_def veq_def is_nan_def)

theorem point_point_f32_exact_witness:
  "collision_point_point_f32 (to_float 1) (to_float 9) (to_float 1) (to_float 9) \<and>
   \<not> is_nan (to_float 1) \<and> \<not> is_nan (to_float 9)"
  using point_point_f32_exact [of "to_float 1" "to_float 9" "to_float 1" "to_float 9"
      "to_float 1" "to_float 9"]
  by (simp add: is_nan_def)

subsection \<open>Point against a zero-length line\<close>

text \<open>
  With a zero displacement the cross-product test compares \<open>0\<close> with \<open>0\<close> and the
  projection \<open>0\<close> lies between \<open>0\<close> and \<open>0\<close>, so the point \<open>(1, 2)\<close> is reported on the
  zero-length line at \<open>(3, 4)\<close> although the two points differ.
\<close>

theorem point_line_f32_zero_displacement_counterexample:
  "collision_point_line_f32 (to_float 1) (to_float 2) (to_float 3) (to_float 4) 0 0 \<and>
   \<not> collision_point_point_f32 (to_float 1) (to_float 2) (to_float 3) (to_float 4)"
  by code_simp

text \<open>
  The result is not always true either: the difference of \<open>2^127\<close> and \<open>-2^127\<close>
  overflows to infinity, \<open>\<infinity> * 0\<close> is NaN and the first test returns false.
\<close>

lemma point_line_f32_overflow:
  "\<not> collision_point_line_f32 (to_float (2 ^ 127)) 0 (to_float (- (2 ^ 127))) 0 0 0"
  by code_simp

text \<open>
  C1, as amended. With a zero displacement vector (\<^verbatim>\<open>dx2 == 0\<close> and \<^verbatim>\<open>dy2 == 0\<close>)
  \<^verbatim>\<open>collision_point_line\<close> returns true exactly when the two differences \<open>x1 - x2\<close> and
  \<open>y1 - y2\<close>, as computed in \<^verbatim>\<open>float\<close>, are finite, whether or not the point is the line's
  origin; in particular it returns true whenever \<^verbatim>\<open>collision_point_point\<close> holds against
  the origin and the point's coordinates are finite.
\<close>

theorem point_line_f32_zero_displacement:
  assumes "feq dx2 0" "feq dy2 0"
  shows "collision_point_line_f32 x1 y1 x2 y2 dx2 dy2 =
           (is_finite (x1 - x2) \<and> is_finite (y1 - y2)) \<and>
         (is_finite x1 \<and> is_finite y1 \<and> collision_point_point_f32 x1 y1 x2 y2 \<longrightarrow>
            collision_point_line_f32 x1 y1 x2 y2 dx2 dy2)"
proof -
  have z: "valof dx2 = Fin 0" "valof dy2 = Fin 0"
    using assms by (simp_all add: feq_zero_iff)
  have zz: "valof (dx2 * dx2 + dy2 * dy2) = Fin 0"
    using z by (simp add: plus_float_def times_float_def)
  have main: "collision_point_line_f32 x1 y1 x2 y2 dx2 dy2 =
           (is_finite (x1 - x2) \<and> is_finite (y1 - y2))"
  proof (cases "is_finite (x1 - x2) \<and> is_finite (y1 - y2)")
    case True
    then have p: "valof ((x1 - x2) * dy2) = Fin 0" "valof ((y1 - y2) * dx2) = Fin 0"
      "valof ((x1 - x2) * dx2) = Fin 0" "valof ((y1 - y2) * dy2) = Fin 0"
      using z by (simp_all add: mul_zero_right)
    then have s: "valof ((x1 - x2) * dx2 + (y1 - y2) * dy2) = Fin 0"
      by (simp add: plus_float_def)
    show ?thesis
      using True p s zz
      by (simp add: collision_point_line_f32_def Let_def fne_def feq_def veq_def
          between_f32_def minmax_f32_def less_float_def)
  next
    case False
    then have "valof ((x1 - x2) * dy2) = NaN \<or> valof ((y1 - y2) * dx2) = NaN"
      using z by (auto simp: mul_zero_right)
    then have "fne ((x1 - x2) * dy2) ((y1 - y2) * dx2)"
      by (auto simp: fne_def feq_def veq_def)
    then show ?thesis using False by (simp add: collision_point_line_f32_def Let_def)
  qed
  have "is_finite (x1 - x2) \<and> is_finite (y1 - y2)"
    if "is_finite x1" "is_finite y1" "collision_point_point_f32 x1 y1 x2 y2"
  proof -
    from that obtain a b where "valof x1 = Fin a" "valof x2 = Fin a"
      "valof y1 = Fin b" "valof y2 = Fin b"
      by (auto simp: is_finite_iff collision_point_point_f32_def feq_def veq_def)
    then show ?thesis by (simp add: is_finite_iff minus_float_def)
  qed
  with main show ?thesis by blast
qed

theorem point_line_f32_zero_displacement_witness:
  "feq 0 0 \<and>
   collision_point_line_f32 (to_float 1) (to_float 2) (to_float 3) (to_float 4) 0 0 \<and>
   is_finite (to_float 1 - to_float 3) \<and> is_finite (to_float 2 - to_float 4) \<and>
   is_finite (to_float 5) \<and> is_finite (to_float 6) \<and>
   collision_point_point_f32 (to_float 5) (to_float 6) (to_float 5) (to_float 6) \<and>
   collision_point_line_f32 (to_float 5) (to_float 6) (to_float 5) (to_float 6) 0 0"
proof -
  have z: "feq 0 0" by code_simp
  have f: "is_finite (to_float 1 - to_float 3)" "is_finite (to_float 2 - to_float 4)"
    "is_finite (to_float 5)" "is_finite (to_float 6)"
    "collision_point_point_f32 (to_float 5) (to_float 6) (to_float 5) (to_float 6)"
    by code_simp+
  from point_line_f32_zero_displacement
         [OF z z, of "to_float 1" "to_float 2" "to_float 3" "to_float 4"]
       point_line_f32_zero_displacement
         [OF z z, of "to_float 5" "to_float 6" "to_float 5" "to_float 6"]
       z f
  show ?thesis by blast
qed

subsection \<open>A box against itself\<close>

text \<open>
  The box at the origin with extents \<open>(-1, 2)\<close> does not collide with itself: the first
  test \<^verbatim>\<open>x1 + w1 < x2\<close> is \<open>-1 < 0\<close>.
\<close>

theorem box_box_f32_self_counterexample:
  "\<not> collision_box_box_f32 0 0 (to_float (- 1)) (to_float 2) 0 0 (to_float (- 1)) (to_float 2)"
  by code_simp

text \<open>
  A negative extent does not always separate a box from itself: \<open>2^25 + (-1)\<close> rounds
  back to \<open>2^25\<close>, and the box at \<open>(2^25, 0)\<close> with extents \<open>(-1, 2)\<close> collides with
  itself.
\<close>

lemma box_box_f32_absorbed_extent:
  "collision_box_box_f32 (to_float (2 ^ 25)) 0 (to_float (- 1)) (to_float 2)
     (to_float (2 ^ 25)) 0 (to_float (- 1)) (to_float 2)"
  by code_simp

text \<open>
  C4, as amended. Every box whose extents are non-negative (\<^verbatim>\<open>0 <= w\<close> and \<^verbatim>\<open>0 <= h\<close>)
  collides with itself: \<^verbatim>\<open>collision_box_box(x, y, w, h, x, y, w, h)\<close> returns true for all
  \<open>x\<close> and \<open>y\<close>.
\<close>

theorem box_box_f32_self:
  "(0::float) \<le> w \<Longrightarrow> (0::float) \<le> h \<Longrightarrow> collision_box_box_f32 x y w h x y w h"
  by (simp add: collision_box_box_f32_def add_nonneg_not_less)

theorem box_box_f32_self_witness:
  "(0::float) \<le> to_float 1 \<and> (0::float) \<le> to_float 2 \<and>
   collision_box_box_f32 (to_float 3) (to_float (- 4)) (to_float 1) (to_float 2)
     (to_float 3) (to_float (- 4)) (to_float 1) (to_float 2)"
proof -
  have w: "(0::float) \<le> to_float 1" and h: "(0::float) \<le> to_float 2" by code_simp+
  from box_box_f32_self [OF w h] w h show ?thesis by blast
qed

subsection \<open>The base vertex of a triangle\<close>

text \<open>
  With an infinite edge component the second nominator is \<open>0 * 0 - 0 * \<infinity>\<close>, a NaN, its
  denominator is \<open>-\<infinity>\<close>, and \<^verbatim>\<open>fraction_less_than_zero\<close> reports a negative fraction: the
  base vertex is classified as outside.
\<close>

theorem point_triangle_f32_base_vertex_counterexample:
  "\<not> collision_point_triangle_f32 0 0 0 0 pos_inf 0 0 (to_float 1)"
  by code_simp

text \<open>
  C8, as amended. The base vertex of a triangle is classified as inside it whenever the
  coordinates of the vertex and the components of the two edge vectors are finite
  (collinear and zero edge vectors included):
  \<^verbatim>\<open>collision_point_triangle(x2, y2, x2, y2, sxa2, sya2, sxb2, syb2)\<close> is true.
\<close>

theorem point_triangle_f32_base_vertex:
  assumes "is_finite x2" "is_finite y2" "is_finite sxa2" "is_finite sya2"
    "is_finite sxb2" "is_finite syb2"
  shows "collision_point_triangle_f32 x2 y2 x2 y2 sxa2 sya2 sxb2 syb2"
proof -
  have dx: "valof (x2 - x2) = Fin 0" and dy: "valof (y2 - y2) = Fin 0"
    using assms by (simp_all add: sub_self)
  have u: "valof ((x2 - x2) * syb2 - (y2 - y2) * sxb2) = Fin 0"
    by (rule sub_zero_zero; rule mul_zero_left; rule dx dy assms)
  have v: "valof ((x2 - x2) * sya2 - (y2 - y2) * sxa2) = Fin 0"
    by (rule sub_zero_zero; rule mul_zero_left; rule dx dy assms)
  have uv: "valof ((x2 - x2) * syb2 - (y2 - y2) * sxb2
              - ((x2 - x2) * sya2 - (y2 - y2) * sxa2)) = Fin 0"
    using u v by (rule sub_zero_zero)
  show ?thesis
    unfolding collision_point_triangle_f32_def Let_def
    using u v uv by (simp add: fraction_zero_nominator_f32)
qed

theorem point_triangle_f32_base_vertex_witness:
  "is_finite (to_float 1) \<and> is_finite (to_float 2) \<and>
   collision_point_triangle_f32 (to_float 1) (to_float 2) (to_float 1) (to_float 2)
     (to_float 1) (to_float 1) (to_float 2) (to_float 2)"
proof -
  have f: "is_finite (to_float 1)" "is_finite (to_float 2)" by code_simp+
  from point_triangle_f32_base_vertex [OF f(1) f(2) f(1) f(1) f(2) f(2)] f
  show ?thesis by blast
qed

end
